theory Spec2Isabelle
  imports Main "HOL-Library.AList" "HOL-Library.Word"
begin

unbundle bit_operations_syntax

section \<open>JavaScript values\<close>

text \<open>
  The functions of \<^verbatim>\<open>index.js\<close> receive dynamically typed arguments and option bags.
  A value is one of the JSON-representable JavaScript values, or \<^verbatim>\<open>undefined\<close>.
  Numbers are restricted to integers (no floating point, no \<^verbatim>\<open>NaN\<close>); strings are
  byte strings (their UTF-8 encoding).  An object is the list of its own properties
  in insertion order, with \<^verbatim>\<open>Object.prototype\<close> behind it.  No value is a function.
\<close>

datatype jsval =
    JUndefined
  | JNull
  | JBool bool
  | JNum int
  | JStr string
  | JArr "jsval list"
  | JObj "(string \<times> jsval) list"

type_synonym jsobject = "(string \<times> jsval) list"

text \<open>
  What the functions throw themselves: the error of \<^verbatim>\<open>getOrThrowConfig\<close> for a
  configuration variable that is missing, and the \<^verbatim>\<open>TypeError\<close> of the platform.
\<close>

datatype error = MissingConfig string | TypeError string

text \<open>ToBoolean: what \<^verbatim>\<open>if (v)\<close>, \<^verbatim>\<open>v ? a : b\<close> and \<^verbatim>\<open>v || w\<close> test.\<close>

fun truthy :: "jsval \<Rightarrow> bool" where
  "truthy JUndefined = False"
| "truthy JNull = False"
| "truthy (JBool b) = b"
| "truthy (JNum n) = (n \<noteq> 0)"
| "truthy (JStr s) = (s \<noteq> [])"
| "truthy (JArr xs) = True"
| "truthy (JObj kvs) = True"

text \<open>\<^verbatim>\<open>a || b\<close> when evaluating \<^verbatim>\<open>b\<close> cannot throw.\<close>

definition js_or :: "jsval \<Rightarrow> jsval \<Rightarrow> jsval" where
  "js_or a b = (if truthy a then a else b)"

text \<open>
  Property read \<^verbatim>\<open>o.k\<close> on a plain object, and what
  \<^verbatim>\<open>Object.prototype.hasOwnProperty\<close> answers for it.
\<close>

definition get_prop :: "jsobject \<Rightarrow> string \<Rightarrow> jsval" where
  "get_prop obj k = (case map_of obj k of None \<Rightarrow> JUndefined | Some v \<Rightarrow> v)"

definition hasOwnProperty :: "jsobject \<Rightarrow> string \<Rightarrow> bool" where
  "hasOwnProperty obj k = (map_of obj k \<noteq> None)"

text \<open>
  The method call \<^verbatim>\<open>o.hasOwnProperty(k)\<close>.  The method is looked up on the object
  first: an own property named \<^verbatim>\<open>hasOwnProperty\<close> shadows the one of the prototype,
  and as no value of the model is a function, calling it is a \<^verbatim>\<open>TypeError\<close>.
\<close>

definition call_hasOwnProperty :: "jsobject \<Rightarrow> string \<Rightarrow> error + bool" where
  "call_hasOwnProperty obj k =
     (if hasOwnProperty obj ''hasOwnProperty''
      then Inl (TypeError ''hasOwnProperty is not a function'')
      else Inr (hasOwnProperty obj k))"

text \<open>
  Assignment \<^verbatim>\<open>o.k = v\<close>: an existing property keeps its place, a new one is
  appended.
\<close>

definition set_prop :: "jsobject \<Rightarrow> string \<Rightarrow> jsval \<Rightarrow> jsobject" where
  "set_prop obj k v = AList.update k v obj"

subsection \<open>Number and value to string\<close>

text \<open>
  The decimal digits of a natural number, most significant first, in front of the
  digits already produced.
\<close>

fun decimal :: "nat \<Rightarrow> string \<Rightarrow> string" where
  "decimal n ds =
     (if n < 10 then char_of (n + 48) # ds
      else decimal (n div 10) (char_of (n mod 10 + 48) # ds))"

declare decimal.simps [simp del]

definition Number_toString :: "int \<Rightarrow> string" where
  "Number_toString i = (if 0 \<le> i then decimal (nat i) [] else CHR ''-'' # decimal (nat (- i)) [])"

text \<open>
  The loop of \<^verbatim>\<open>Array.prototype.join\<close> over the already stringified elements:
  \<^verbatim>\<open>R = ""; for (k = 0; k < len; k++) { if (k > 0) R += sep; R += next; }\<close>
\<close>

fun join_loop :: "string \<Rightarrow> string list \<Rightarrow> nat \<Rightarrow> string \<Rightarrow> string" where
  "join_loop sep [] k R = R"
| "join_loop sep (x # xs) k R = join_loop sep xs (Suc k) ((if 0 < k then R @ sep else R) @ x)"

text \<open>
  ToString, as a template literal \<^verbatim>\<open>`${v}`\<close> and \<^verbatim>\<open>join\<close> apply it.  An array is
  its elements joined by commas.  An object is converted by its \<^verbatim>\<open>toString\<close>: that of
  the prototype answers \<^verbatim>\<open>[object Object]\<close>; an own property of that name shadows it
  and is no function, \<^verbatim>\<open>valueOf\<close> does not yield a primitive either, and the
  conversion is a \<^verbatim>\<open>TypeError\<close>.  Inside \<^verbatim>\<open>join\<close> an element that is \<^verbatim>\<open>undefined\<close> or
  \<^verbatim>\<open>null\<close> contributes the empty string; the elements are converted in their order
  and the first failure is thrown.
\<close>

fun js_toString :: "jsval \<Rightarrow> error + string"
  and elements_toString :: "jsval list \<Rightarrow> error + string list" where
  "js_toString JUndefined = Inr ''undefined''"
| "js_toString JNull = Inr ''null''"
| "js_toString (JBool b) = Inr (if b then ''true'' else ''false'')"
| "js_toString (JNum n) = Inr (Number_toString n)"
| "js_toString (JStr s) = Inr s"
| "js_toString (JArr xs) =
     (case elements_toString xs of
        Inl e \<Rightarrow> Inl e
      | Inr strs \<Rightarrow> Inr (join_loop '','' strs 0 []))"
| "js_toString (JObj kvs) =
     (if hasOwnProperty kvs ''toString''
      then Inl (TypeError ''Cannot convert object to primitive value'')
      else Inr ''[object Object]'')"
| "elements_toString [] = Inr []"
| "elements_toString (x # xs) =
     (case (if x = JUndefined \<or> x = JNull then Inr [] else js_toString x) of
        Inl e \<Rightarrow> Inl e
      | Inr s \<Rightarrow>
          (case elements_toString xs of
             Inl e \<Rightarrow> Inl e
           | Inr strs \<Rightarrow> Inr (s # strs)))"

definition Array_join :: "string \<Rightarrow> jsval list \<Rightarrow> error + string" where
  "Array_join sep xs =
     (case elements_toString xs of
        Inl e \<Rightarrow> Inl e
      | Inr strs \<Rightarrow> Inr (join_loop sep strs 0 []))"

section \<open>The modules \<^verbatim>\<open>index.js\<close> requires\<close>

text \<open>
  \<^verbatim>\<open>lib/config\<close> is the process-wide mutable configuration: the API origin and the
  API version.
\<close>

record config =
  api :: string
  version :: jsval

text \<open>
  \<^verbatim>\<open>lib/util\<close> is not among the sources.  The functions of \<^verbatim>\<open>index.js\<close> take the
  module as a parameter: one field for each function they call.  \<^verbatim>\<open>getUrl\<close> reads
  the configuration, which the model passes explicitly.  Of the four, only
  \<^verbatim>\<open>getOrThrowConfig\<close> is taken to throw.
\<close>

record util =
  getConfig :: "string \<Rightarrow> jsval"
  getOrThrowConfig :: "string \<Rightarrow> error + jsval"
  getFlagsString :: "jsval \<Rightarrow> jsval"
  getUrl :: "config \<Rightarrow> jsval"

section \<open>Query parameters\<close>

definition buildQueryParams ::
  "util \<Rightarrow> jsval \<Rightarrow> jsval list \<Rightarrow> jsval \<Rightarrow> jsobject \<Rightarrow> error + jsobject" where
  "buildQueryParams u vin scope country options =
     (case Array_join '' '' scope of
        Inl e \<Rightarrow> Inl e
      | Inr joined \<Rightarrow>
          (let parameters0 = [(''vin'', vin), (''scope'', JStr joined), (''country'', country)];
               parameters1 =
                 (if truthy (get_prop options ''flags'')
                  then set_prop parameters0 ''flags'' (getFlagsString u (get_prop options ''flags''))
                  else parameters0)
           in case call_hasOwnProperty options ''testMode'' of
                Inl e \<Rightarrow> Inl e
              | Inr has_testMode \<Rightarrow>
                  (let parameters2 =
                         (if has_testMode
                          then set_prop parameters1 ''mode''
                                 (if truthy (get_prop options ''testMode'')
                                  then JStr ''test'' else JStr ''live'')
                          else parameters1);
                       parameters3 =
                         (if truthy (get_prop options ''testModeCompatibilityLevel'')
                          then set_prop
                                 (set_prop parameters2 ''test_mode_compatibility_level''
                                    (get_prop options ''testModeCompatibilityLevel''))
                                 ''mode'' (JStr ''test'')
                          else parameters2)
                   in Inr parameters3)))"

text \<open>
  What the specification says of the \<^verbatim>\<open>scope\<close> parameter: the tokens in their order,
  one space between neighbours.
\<close>

fun space_joined :: "string list \<Rightarrow> string" where
  "space_joined [] = []"
| "space_joined [x] = x"
| "space_joined (x # y # ys) = x @ '' '' @ space_joined (y # ys)"

text \<open>
  \<^verbatim>\<open>s.split(c)\<close> for a separator of one character: how a reader of the parameter
  gets the tokens back.
\<close>

fun split_on :: "char \<Rightarrow> string \<Rightarrow> string list" where
  "split_on c [] = [[]]"
| "split_on c (x # xs) =
     (if x = c then [] # split_on c xs
      else (case split_on c xs of [] \<Rightarrow> [[x]] | w # ws \<Rightarrow> (x # w) # ws))"

section \<open>Configuration and requests\<close>

definition setApiVersion :: "jsval \<Rightarrow> config \<Rightarrow> config" where
  "setApiVersion v cfg = cfg\<lparr>version := v\<rparr>"

definition getApiVersion :: "config \<Rightarrow> jsval" where
  "getApiVersion cfg = version cfg"

text \<open>
  \<^verbatim>\<open>lib/smartcar-service\<close> is not among the sources either.  A request is what
  \<^verbatim>\<open>index.js\<close> hands to it: the options of \<^verbatim>\<open>new SmartcarService({...})\<close> and the
  two arguments of \<^verbatim>\<open>.request(method, path)\<close>.  The service itself is the parameter
  \<open>send\<close>; its value stands for the settled response (a body or a
  \<^verbatim>\<open>SmartcarError\<close>).
\<close>

record service_options =
  baseUrl :: jsval
  auth :: jsobject
  qs :: "jsobject option"

record request =
  service :: service_options
  http_method :: string
  path :: string

text \<open>
  The outcome of an operation: the requests it issued, and either an error thrown
  before any request (\<open>Inl\<close>) or what the service answered (\<open>Inr\<close>).
\<close>

type_synonym 'r outcome = "request list \<times> (error + 'r)"

definition issue :: "(request \<Rightarrow> 'r) \<Rightarrow> error + request \<Rightarrow> 'r outcome" where
  "issue send prepared =
     (case prepared of Inl e \<Rightarrow> ([], Inl e) | Inr r \<Rightarrow> ([r], Inr (send r)))"

text \<open>
  The object literal is evaluated first, the template literal of the path after it;
  the conversion of the version to a string is the one step that can throw.
\<close>

definition getUser_request :: "util \<Rightarrow> config \<Rightarrow> jsval \<Rightarrow> error + request" where
  "getUser_request u cfg accessToken =
     (let opts = \<lparr> baseUrl = js_or (getConfig u ''SMARTCAR_API_ORIGIN'') (JStr (api cfg)),
                   auth = [(''bearer'', accessToken)],
                   qs = None \<rparr>
      in case js_toString (version cfg) of
           Inl e \<Rightarrow> Inl e
         | Inr v \<Rightarrow>
             Inr \<lparr> service = opts, http_method = ''get'', path = ''/v'' @ v @ ''/user'' \<rparr>)"

definition getUser :: "(request \<Rightarrow> 'r) \<Rightarrow> util \<Rightarrow> config \<Rightarrow> jsval \<Rightarrow> 'r outcome" where
  "getUser send u cfg accessToken = issue send (getUser_request u cfg accessToken)"

text \<open>
  The default parameters \<^verbatim>\<open>paging = {}\<close> and \<^verbatim>\<open>options = {}\<close>: \<open>None\<close> is an
  omitted argument.
\<close>

definition default_object :: "jsobject option \<Rightarrow> jsobject" where
  "default_object arg = (case arg of None \<Rightarrow> [] | Some obj \<Rightarrow> obj)"

definition getVehicles_request :: "util \<Rightarrow> config \<Rightarrow> jsval \<Rightarrow> jsobject option \<Rightarrow> error + request" where
  "getVehicles_request u cfg accessToken paging_arg =
     (let paging = default_object paging_arg
      in Inr \<lparr> service =
                  \<lparr> baseUrl = getUrl u cfg,
                    auth = [(''bearer'', accessToken)],
                    qs = Some paging \<rparr>,
                http_method = ''get'',
                path = [] \<rparr>)"

definition getVehicles ::
  "(request \<Rightarrow> 'r) \<Rightarrow> util \<Rightarrow> config \<Rightarrow> jsval \<Rightarrow> jsobject option \<Rightarrow> 'r outcome" where
  "getVehicles send u cfg accessToken paging_arg =
     issue send (getVehicles_request u cfg accessToken paging_arg)"

text \<open>\<^verbatim>\<open>a || f()\<close> where the call on the right may throw.\<close>

definition js_or_throwing :: "jsval \<Rightarrow> error + jsval \<Rightarrow> error + jsval" where
  "js_or_throwing a b = (if truthy a then Inr a else b)"

text \<open>
  In the order of the source: the country default, the two credentials, the object
  literal with the query parameters, the template literal of the path.
\<close>

definition getCompatibility_request ::
  "util \<Rightarrow> config \<Rightarrow> jsval \<Rightarrow> jsval list \<Rightarrow> jsval \<Rightarrow> jsobject option \<Rightarrow> error + request" where
  "getCompatibility_request u cfg vin scope country_arg options_arg =
     (let options = default_object options_arg;
          country = js_or country_arg (JStr ''US'')
      in case js_or_throwing (get_prop options ''clientId'')
                (getOrThrowConfig u ''SMARTCAR_CLIENT_ID'') of
           Inl e \<Rightarrow> Inl e
         | Inr clientId \<Rightarrow>
             (case js_or_throwing (get_prop options ''clientSecret'')
                     (getOrThrowConfig u ''SMARTCAR_CLIENT_SECRET'') of
                Inl e \<Rightarrow> Inl e
              | Inr clientSecret \<Rightarrow>
                  (case buildQueryParams u vin scope country options of
                     Inl e \<Rightarrow> Inl e
                   | Inr parameters \<Rightarrow>
                       (case js_toString (js_or (get_prop options ''version'') (version cfg)) of
                          Inl e \<Rightarrow> Inl e
                        | Inr v \<Rightarrow>
                            Inr \<lparr> service =
                                    \<lparr> baseUrl = js_or (getConfig u ''SMARTCAR_API_ORIGIN'')
                                                  (JStr (api cfg)),
                                      auth = [(''user'', clientId), (''pass'', clientSecret)],
                                      qs = Some parameters \<rparr>,
                                  http_method = ''get'',
                                  path = ''v'' @ v @ ''/compatibility'' \<rparr>))))"

definition getCompatibility ::
  "(request \<Rightarrow> 'r) \<Rightarrow> util \<Rightarrow> config \<Rightarrow> jsval \<Rightarrow> jsval list \<Rightarrow> jsval \<Rightarrow> jsobject option
     \<Rightarrow> 'r outcome" where
  "getCompatibility send u cfg vin scope country_arg options_arg =
     issue send (getCompatibility_request u cfg vin scope country_arg options_arg)"

text \<open>
  Which authentication a request carries, read off the keys of its \<^verbatim>\<open>auth\<close>
  object: \<^verbatim>\<open>bearer\<close> for a token, \<^verbatim>\<open>user\<close> and \<^verbatim>\<open>pass\<close> for basic auth.
\<close>

definition carries_bearer :: "request \<Rightarrow> bool" where
  "carries_bearer r = hasOwnProperty (auth (service r)) ''bearer''"

definition carries_basic :: "request \<Rightarrow> bool" where
  "carries_basic r =
     (hasOwnProperty (auth (service r)) ''user'' \<or> hasOwnProperty (auth (service r)) ''pass'')"

text \<open>The value a request sends for a query parameter, if it sends one.\<close>

definition query_param :: "request \<Rightarrow> string \<Rightarrow> jsval option" where
  "query_param r k = (case qs (service r) of None \<Rightarrow> None | Some q \<Rightarrow> map_of q k)"

subsection \<open>The service and the helper module, from the specification\<close>


text \<open>
  Modelled from the spec: \<^verbatim>\<open>lib/util\<close> (\<^verbatim>\<open>getConfig\<close>, \<^verbatim>\<open>getOrThrowConfig\<close>,
  \<^verbatim>\<open>getFlagsString\<close>, \<^verbatim>\<open>getUrl\<close>) is missing from the sources.  The environment
  is the list of the variables that are set.  \<^verbatim>\<open>getConfig\<close> reads a variable and
  yields \<^verbatim>\<open>undefined\<close> when it is not set; \<^verbatim>\<open>getOrThrowConfig\<close> fails fast on a
  missing one; flags render as \<^verbatim>\<open>key1:value1,key2:value2\<close>; and \<^verbatim>\<open>getUrl()\<close> is
  \<^verbatim>\<open>config.api + '/v' + config.version + '/vehicles'\<close>, as \<^verbatim>\<open>test/test_util.js\<close>
  expects.  A value without a string form is rendered empty here.
\<close>

definition text_of :: "jsval \<Rightarrow> string" where
  "text_of v = (case js_toString v of Inl e \<Rightarrow> [] | Inr s \<Rightarrow> s)"

definition util_of_env :: "(string \<times> string) list \<Rightarrow> util" where
  "util_of_env env =
     \<lparr> getConfig = (\<lambda>name. case map_of env name of None \<Rightarrow> JUndefined | Some s \<Rightarrow> JStr s),
       getOrThrowConfig =
         (\<lambda>name. case map_of env name of
                    None \<Rightarrow> Inl (MissingConfig name)
                  | Some s \<Rightarrow> Inr (JStr s)),
       getFlagsString =
         (\<lambda>flags. case flags of
                     JObj kvs \<Rightarrow>
                       JStr (join_loop '','' (map (\<lambda>(k, v). k @ '':'' @ text_of v) kvs) 0 [])
                   | _ \<Rightarrow> JStr []),
       getUrl = (\<lambda>cfg. JStr (api cfg @ ''/v'' @ text_of (version cfg) @ ''/vehicles'')) \<rparr>"

section \<open>Webhook signatures\<close>

subsection \<open>SHA-256 and HMAC, as the platform's \<^verbatim>\<open>crypto\<close> module computes them\<close>

type_synonym byte = "8 word"
type_synonym u32 = "32 word"

definition rotr :: "nat \<Rightarrow> u32 \<Rightarrow> u32" where
  "rotr n x = (drop_bit n x) OR (push_bit (32 - n) x)"

definition Ch :: "u32 \<Rightarrow> u32 \<Rightarrow> u32 \<Rightarrow> u32" where
  "Ch x y z = (x AND y) XOR (NOT x AND z)"

definition Maj :: "u32 \<Rightarrow> u32 \<Rightarrow> u32 \<Rightarrow> u32" where
  "Maj x y z = (x AND y) XOR (x AND z) XOR (y AND z)"

definition Sigma0 :: "u32 \<Rightarrow> u32" where
  "Sigma0 x = rotr 2 x XOR rotr 13 x XOR rotr 22 x"

definition Sigma1 :: "u32 \<Rightarrow> u32" where
  "Sigma1 x = rotr 6 x XOR rotr 11 x XOR rotr 25 x"

definition sigma0 :: "u32 \<Rightarrow> u32" where
  "sigma0 x = rotr 7 x XOR rotr 18 x XOR drop_bit 3 x"

definition sigma1 :: "u32 \<Rightarrow> u32" where
  "sigma1 x = rotr 17 x XOR rotr 19 x XOR drop_bit 10 x"

definition sha256_K :: "u32 list" where
  "sha256_K =
    [0x428A2F98, 0x71374491, 0xB5C0FBCF, 0xE9B5DBA5, 0x3956C25B, 0x59F111F1, 0x923F82A4, 0xAB1C5ED5,
     0xD807AA98, 0x12835B01, 0x243185BE, 0x550C7DC3, 0x72BE5D74, 0x80DEB1FE, 0x9BDC06A7, 0xC19BF174,
     0xE49B69C1, 0xEFBE4786, 0x0FC19DC6, 0x240CA1CC, 0x2DE92C6F, 0x4A7484AA, 0x5CB0A9DC, 0x76F988DA,
     0x983E5152, 0xA831C66D, 0xB00327C8, 0xBF597FC7, 0xC6E00BF3, 0xD5A79147, 0x06CA6351, 0x14292967,
     0x27B70A85, 0x2E1B2138, 0x4D2C6DFC, 0x53380D13, 0x650A7354, 0x766A0ABB, 0x81C2C92E, 0x92722C85,
     0xA2BFE8A1, 0xA81A664B, 0xC24B8B70, 0xC76C51A3, 0xD192E819, 0xD6990624, 0xF40E3585, 0x106AA070,
     0x19A4C116, 0x1E376C08, 0x2748774C, 0x34B0BCB5, 0x391C0CB3, 0x4ED8AA4A, 0x5B9CCA4F, 0x682E6FF3,
     0x748F82EE, 0x78A5636F, 0x84C87814, 0x8CC70208, 0x90BEFFFA, 0xA4506CEB, 0xBEF9A3F7, 0xC67178F2]"

definition sha256_H0 :: "u32 list" where
  "sha256_H0 =
    [0x6A09E667, 0xBB67AE85, 0x3C6EF372, 0xA54FF53A, 0x510E527F, 0x9B05688C, 0x1F83D9AB, 0x5BE0CD19]"

text \<open>The message schedule: the sixteen words of a block, extended one word at a time.\<close>

fun schedule :: "nat \<Rightarrow> u32 list \<Rightarrow> u32 list" where
  "schedule 0 w = w"
| "schedule (Suc n) w =
     schedule n
       (w @ [sigma1 (w ! (length w - 2)) + w ! (length w - 7)
             + sigma0 (w ! (length w - 15)) + w ! (length w - 16)])"

fun sha256_round :: "u32 list \<Rightarrow> u32 \<times> u32 \<Rightarrow> u32 list" where
  "sha256_round [a, b, c, d, e, f, g, h] (k, w) =
     (let t1 = h + Sigma1 e + Ch e f g + k + w;
          t2 = Sigma0 a + Maj a b c
      in [t1 + t2, a, b, c, d + t1, e, f, g])"
| "sha256_round s _ = s"

definition compress :: "u32 list \<Rightarrow> u32 list \<Rightarrow> u32 list" where
  "compress hs block = map2 (+) hs (foldl sha256_round hs (zip sha256_K (schedule 48 block)))"

definition be32 :: "byte list \<Rightarrow> u32" where
  "be32 bs = foldl (\<lambda>acc b. push_bit 8 acc OR ucast b) 0 bs"

fun words_of :: "nat \<Rightarrow> byte list \<Rightarrow> u32 list" where
  "words_of 0 bs = []"
| "words_of (Suc n) bs = be32 (take 4 bs) # words_of n (drop 4 bs)"

definition bytes_of_u32 :: "u32 \<Rightarrow> byte list" where
  "bytes_of_u32 w = [ucast (drop_bit 24 w), ucast (drop_bit 16 w), ucast (drop_bit 8 w), ucast w]"

text \<open>The length of the message in bits, as a big-endian 64-bit integer.\<close>

definition bytes_of_len :: "nat \<Rightarrow> byte list" where
  "bytes_of_len n = map (\<lambda>i. ucast (drop_bit (8 * (7 - i)) (of_nat n :: 64 word))) [0 ..< 8]"

definition sha256_pad :: "byte list \<Rightarrow> byte list" where
  "sha256_pad m =
     m @ [0x80] @ replicate ((119 - length m mod 64) mod 64) 0 @ bytes_of_len (8 * length m)"

fun sha256_blocks :: "nat \<Rightarrow> u32 list \<Rightarrow> byte list \<Rightarrow> u32 list" where
  "sha256_blocks 0 hs bs = hs"
| "sha256_blocks (Suc n) hs bs =
     sha256_blocks n (compress hs (words_of 16 (take 64 bs))) (drop 64 bs)"

definition sha256 :: "byte list \<Rightarrow> byte list" where
  "sha256 m =
     (let p = sha256_pad m
      in concat (map bytes_of_u32 (sha256_blocks (length p div 64) sha256_H0 p)))"

definition hex_digit :: "nat \<Rightarrow> char" where
  "hex_digit n = (if n < 10 then char_of (48 + n) else char_of (87 + n))"

definition hex_of_bytes :: "byte list \<Rightarrow> string" where
  "hex_of_bytes bs = concat (map (\<lambda>b. [hex_digit (unat b div 16), hex_digit (unat b mod 16)]) bs)"

definition bytes_of_string :: "string \<Rightarrow> byte list" where
  "bytes_of_string s = map of_char s"

text \<open>
  The \<^verbatim>\<open>Hmac\<close> object of \<^verbatim>\<open>crypto.createHmac('sha256', key)\<close>: the key block (the key,
  hashed first when longer than a block, then zero-padded to 64 bytes) and the data
  fed so far by \<^verbatim>\<open>update\<close>.  \<^verbatim>\<open>digest('hex')\<close> finishes the inner hash, runs the
  outer one and renders the 32 bytes as lowercase hexadecimal.
\<close>

record Hmac =
  key_block :: "byte list"
  fed :: "byte list"

definition createHmac_sha256 :: "string \<Rightarrow> Hmac" where
  "createHmac_sha256 key =
     (let k = bytes_of_string key;
          k0 = (if 64 < length k then sha256 k else k)
      in \<lparr> key_block = k0 @ replicate (64 - length k0) 0, fed = [] \<rparr>)"

definition update :: "Hmac \<Rightarrow> string \<Rightarrow> Hmac" where
  "update h data = h\<lparr>fed := fed h @ bytes_of_string data\<rparr>"

definition digest_hex :: "Hmac \<Rightarrow> string" where
  "digest_hex h =
     (let inner = sha256 (map (\<lambda>b. b XOR 0x36) (key_block h) @ fed h)
      in hex_of_bytes (sha256 (map (\<lambda>b. b XOR 0x5c) (key_block h) @ inner)))"

text \<open>
  The reference the digest is compared with: HMAC as RFC 2104 states it,
  \<open>H((K' \<oplus> opad) || H((K' \<oplus> ipad) || text))\<close>, with \<open>H\<close> = SHA-256 and block size 64.
\<close>

definition HMAC_SHA256_reference :: "byte list \<Rightarrow> byte list \<Rightarrow> byte list" where
  "HMAC_SHA256_reference K txt =
     (let K' = (if length K > 64 then sha256 K else K) @
               replicate (64 - length (if length K > 64 then sha256 K else K)) 0;
          ipad = replicate 64 (0x36 :: byte);
          opad = replicate 64 (0x5c :: byte)
      in sha256 (map2 (XOR) K' opad @ sha256 (map2 (XOR) K' ipad @ txt)))"

text \<open>
  A known answer: test case 2 of RFC 4231, key \<^verbatim>\<open>Jefe\<close> and data
  \<^verbatim>\<open>what do ya want for nothing?\<close>.  The inner and the outer hash take two blocks
  each; the four lists are the chaining values after each block.
\<close>

definition kat_inner :: "byte list" where
  "kat_inner =
     map (\<lambda>b. b XOR 0x36)
       (bytes_of_string ''Jefe'' @ replicate (64 - length (bytes_of_string ''Jefe'')) 0)
     @ bytes_of_string ''what do ya want for nothing?''"

definition kat_state1 :: "u32 list" where
  "kat_state1 =
     [0x655DA7FA, 0xCC434B37, 0x5A1CD5CB, 0x0692EE0E, 0xA47A23D3, 0x4C3AF449, 0xDBA21AE2, 0x78C7500C]"

definition kat_state2 :: "u32 list" where
  "kat_state2 =
     [0xA2E48586, 0x3D27F9D8, 0x64AC8D80, 0x2432A1ED, 0x477D8C4C, 0x6F349D16, 0xD4E7E917, 0xC629CAD7]"

definition kat_outer :: "byte list" where
  "kat_outer =
     map (\<lambda>b. b XOR 0x5c)
       (bytes_of_string ''Jefe'' @ replicate (64 - length (bytes_of_string ''Jefe'')) 0)
     @ concat (map bytes_of_u32 kat_state2)"

definition kat_state3 :: "u32 list" where
  "kat_state3 =
     [0x0EAFE3D5, 0x13412E6C, 0x6A6A2FEB, 0x2D375ACC, 0x51A4FD47, 0x6DB095E8, 0x23BFA18A, 0x52F141D5]"

definition kat_state4 :: "u32 list" where
  "kat_state4 =
     [0x5BDCC146, 0xBF60754E, 0x6A042426, 0x089575C7, 0x5A003F08, 0x9D273983, 0x9DEC58B9, 0x64EC3843]"

subsection \<open>\<^verbatim>\<open>JSON.stringify\<close>\<close>

text \<open>
  A string in quotes, with the escapes of \<^verbatim>\<open>JSON.stringify\<close>: the two-character
  escapes for backspace, tab, line feed, form feed, carriage return, the quote and the
  backslash, and \<^verbatim>\<open>\u00XX\<close> for the other control characters.
\<close>

definition escape_char :: "char \<Rightarrow> string" where
  "escape_char c =
     (let n = (of_char c :: nat) in
      if n = 8 then [CHR 0x5C, CHR ''b'']
      else if n = 9 then [CHR 0x5C, CHR ''t'']
      else if n = 10 then [CHR 0x5C, CHR ''n'']
      else if n = 12 then [CHR 0x5C, CHR ''f'']
      else if n = 13 then [CHR 0x5C, CHR ''r'']
      else if n = 34 then [CHR 0x5C, CHR 0x22]
      else if n = 92 then [CHR 0x5C, CHR 0x5C]
      else if n < 32 then [CHR 0x5C, CHR ''u'', CHR ''0'', CHR ''0'', hex_digit (n div 16), hex_digit (n mod 16)]
      else [c])"

definition quote :: "string \<Rightarrow> string" where
  "quote s = [CHR 0x22] @ concat (map escape_char s) @ [CHR 0x22]"

text \<open>
  \<open>None\<close> is the result \<^verbatim>\<open>undefined\<close>.  Inside an array \<^verbatim>\<open>undefined\<close> is written
  \<^verbatim>\<open>null\<close>; a property whose value is \<^verbatim>\<open>undefined\<close> is left out.
\<close>

fun JSON_stringify :: "jsval \<Rightarrow> string option"
  and stringify_elements :: "jsval list \<Rightarrow> string list"
  and stringify_properties :: "(string \<times> jsval) list \<Rightarrow> string list" where
  "JSON_stringify JUndefined = None"
| "JSON_stringify JNull = Some ''null''"
| "JSON_stringify (JBool b) = Some (if b then ''true'' else ''false'')"
| "JSON_stringify (JNum n) = Some (Number_toString n)"
| "JSON_stringify (JStr s) = Some (quote s)"
| "JSON_stringify (JArr xs) = Some (''['' @ join_loop '','' (stringify_elements xs) 0 [] @ '']'')"
| "JSON_stringify (JObj kvs) = Some (''{'' @ join_loop '','' (stringify_properties kvs) 0 [] @ ''}'')"
| "stringify_elements [] = []"
| "stringify_elements (x # xs) =
     (case JSON_stringify x of None \<Rightarrow> ''null'' | Some s \<Rightarrow> s) # stringify_elements xs"
| "stringify_properties [] = []"
| "stringify_properties ((k, v) # kvs) =
     (case JSON_stringify v of
        None \<Rightarrow> stringify_properties kvs
      | Some s \<Rightarrow> (quote k @ '':'' @ s) # stringify_properties kvs)"

subsection \<open>The two functions of \<^verbatim>\<open>index.js\<close>\<close>

definition hashChallenge :: "string \<Rightarrow> string \<Rightarrow> string" where
  "hashChallenge amt challenge =
     (let hmac = createHmac_sha256 amt in digest_hex (update hmac challenge))"

text \<open>
  \<^verbatim>\<open>hmac.update(undefined)\<close> throws a \<^verbatim>\<open>TypeError\<close>: that is the one way
  \<^verbatim>\<open>verifyPayload\<close> fails, when the body does not serialise.  \<^verbatim>\<open>===\<close> against the
  digest, a string, holds exactly for the same string.
\<close>

definition verifyPayload :: "string \<Rightarrow> jsval \<Rightarrow> jsval \<Rightarrow> error + bool" where
  "verifyPayload amt signature body =
     (case JSON_stringify body of
        None \<Rightarrow> Inl (TypeError ''The data argument must be of type string'')
      | Some s \<Rightarrow> Inr (JStr (hashChallenge amt s) = signature))"

section \<open>Properties\<close>

subsection \<open>Objects and joins\<close>

lemma map_of_set_prop: "map_of (set_prop obj k v) = (map_of obj)(k \<mapsto> v)"
  by (simp add: set_prop_def update_conv')

lemma keys_set_prop: "fst ` set (set_prop obj k v) = insert k (fst ` set obj)"
  by (simp add: set_prop_def dom_update)

lemma distinct_set_prop: "distinct (map fst obj) \<Longrightarrow> distinct (map fst (set_prop obj k v))"
  by (simp add: set_prop_def distinct_update)

lemma join_loop_Suc: "join_loop sep xs (Suc k) R = R @ concat (map ((@) sep) xs)"
  by (induction xs arbitrary: k R) simp_all

lemma space_joined_Cons: "space_joined (x # xs) = x @ concat (map ((@) '' '') xs)"
  by (induction xs arbitrary: x) simp_all

lemma join_loop_space: "join_loop '' '' xs 0 [] = space_joined xs"
proof (cases xs)
  case Nil
  then show ?thesis by simp
next
  case (Cons x ys)
  then show ?thesis by (simp add: join_loop_Suc space_joined_Cons)
qed

lemma split_on_no_sep: "c \<notin> set t \<Longrightarrow> split_on c t = [t]"
  by (induction t) auto

lemma split_on_append_sep: "c \<notin> set t \<Longrightarrow> split_on c (t @ c # rest) = t # split_on c rest"
  by (induction t) auto

lemma split_on_space_joined:
  "tokens \<noteq> [] \<Longrightarrow> \<forall>t \<in> set tokens. CHR '' '' \<notin> set t \<Longrightarrow>
     split_on CHR '' '' (space_joined tokens) = tokens"
proof (induction tokens rule: space_joined.induct)
  case 1
  then show ?case by simp
next
  case (2 x)
  then show ?case by (simp add: split_on_no_sep)
next
  case (3 x y ys)
  then show ?case
    using split_on_append_sep [of "CHR '' ''" x "space_joined (y # ys)"] by simp
qed

lemma elements_toString_JStr: "elements_toString (map JStr tokens) = Inr tokens"
  by (induction tokens) simp_all

lemma keys_general:
  "set (map fst
     (let p0 = [(kv, a), (ks, b), (kc, c)];
          p1 = (if F then set_prop p0 kf x else p0);
          p2 = (if T then set_prop p1 km y else p1);
          p3 = (if L then set_prop (set_prop p2 kl z) km w else p2)
      in p3)) =
   {kv, ks, kc} \<union> (if F then {kf} else {}) \<union> (if T \<or> L then {km} else {})
     \<union> (if L then {kl} else {})"
  by (cases F; cases T; cases L) (auto simp add: Let_def keys_set_prop)

text \<open>
  When \<^verbatim>\<open>buildQueryParams\<close> returns, and what: the scope elements have string forms,
  the bag does not shadow \<^verbatim>\<open>hasOwnProperty\<close>, and the object is built by the four
  steps of the source.
\<close>

lemma buildQueryParams_Inr:
  "buildQueryParams u vin scope country options = Inr p \<longleftrightarrow>
     (\<exists>strs. elements_toString scope = Inr strs
        \<and> \<not> hasOwnProperty options ''hasOwnProperty''
        \<and> p =
          (let p0 = [(''vin'', vin), (''scope'', JStr (join_loop '' '' strs 0 [])),
                     (''country'', country)];
               p1 = (if truthy (get_prop options ''flags'')
                     then set_prop p0 ''flags'' (getFlagsString u (get_prop options ''flags''))
                     else p0);
               p2 = (if hasOwnProperty options ''testMode''
                     then set_prop p1 ''mode''
                            (if truthy (get_prop options ''testMode'')
                             then JStr ''test'' else JStr ''live'')
                     else p1);
               p3 = (if truthy (get_prop options ''testModeCompatibilityLevel'')
                     then set_prop
                            (set_prop p2 ''test_mode_compatibility_level''
                               (get_prop options ''testModeCompatibilityLevel''))
                            ''mode'' (JStr ''test'')
                     else p2)
           in p3))"
proof (cases "elements_toString scope")
  case (Inl e)
  then show ?thesis
    by (simp add: buildQueryParams_def Array_join_def)
next
  case (Inr strs)
  show ?thesis
  proof (cases "hasOwnProperty options ''hasOwnProperty''")
    case True
    with Inr show ?thesis
      by (simp add: buildQueryParams_def Array_join_def call_hasOwnProperty_def Let_def)
  next
    case False
    with Inr show ?thesis
      unfolding buildQueryParams_def Array_join_def call_hasOwnProperty_def Let_def
      by (simp only: sum.case if_False simp_thms sum.inject ex_simps simp_thms)
         (auto simp only: )
  qed
qed

lemma buildQueryParams_Inl:
  "(\<exists>e. buildQueryParams u vin scope country options = Inl e) \<longleftrightarrow>
     (\<exists>e. elements_toString scope = Inl e) \<or> hasOwnProperty options ''hasOwnProperty''"
proof (cases "elements_toString scope")
  case (Inl e)
  then show ?thesis
    by (simp add: buildQueryParams_def Array_join_def)
next
  case (Inr strs)
  then show ?thesis
    by (cases "hasOwnProperty options ''hasOwnProperty''")
       (simp_all add: buildQueryParams_def Array_join_def call_hasOwnProperty_def Let_def)
qed

lemma buildQueryParams_returns:
  "(\<exists>p. buildQueryParams u vin scope country options = Inr p) \<longleftrightarrow>
     (\<exists>strs. elements_toString scope = Inr strs) \<and> \<not> hasOwnProperty options ''hasOwnProperty''"
  unfolding buildQueryParams_Inr by blast

lemma buildQueryParams_lookup_scope:
  assumes "buildQueryParams u vin scope country options = Inr p"
  shows "\<exists>strs. elements_toString scope = Inr strs
           \<and> map_of p ''scope'' = Some (JStr (space_joined strs))"
  using assms unfolding buildQueryParams_Inr
  by (auto simp add: Let_def map_of_set_prop join_loop_space)

lemma buildQueryParams_lookup_country:
  assumes "buildQueryParams u vin scope country options = Inr p"
  shows "map_of p ''country'' = Some country"
  using assms unfolding buildQueryParams_Inr
  by (auto simp add: Let_def map_of_set_prop)

subsection \<open>The parameter builder\<close>

text \<open>
  C4.  Whatever the scope list, when \<^verbatim>\<open>buildQueryParams\<close> returns, the \<^verbatim>\<open>scope\<close>
  parameter is present and holds the string forms of the elements in their order with
  one space between neighbours: \<^verbatim>\<open>scope.join(' ')\<close> computes what \<open>space_joined\<close>
  describes.  For a list of strings it returns (unless the bag shadows
  \<^verbatim>\<open>hasOwnProperty\<close>) and these are the strings themselves; for the empty list the
  parameter is the empty string, not a missing key.  Tokens that contain no space are
  recovered from the parameter, in their order, by splitting at the spaces.
\<close>

theorem buildQueryParams_scope:
  "(buildQueryParams u vin scope country options = Inr p \<longrightarrow>
      (\<exists>strs. elements_toString scope = Inr strs
         \<and> map_of p ''scope'' = Some (JStr (space_joined strs))))
   \<and> (\<not> hasOwnProperty options ''hasOwnProperty'' \<longrightarrow>
      (\<exists>q. buildQueryParams u vin (map JStr tokens) country options = Inr q
         \<and> map_of q ''scope'' = Some (JStr (space_joined tokens))))
   \<and> (\<not> hasOwnProperty options ''hasOwnProperty'' \<longrightarrow>
      (\<exists>q. buildQueryParams u vin [] country options = Inr q
         \<and> map_of q ''scope'' = Some (JStr [])))
   \<and> (tokens \<noteq> [] \<and> (\<forall>t \<in> set tokens. CHR '' '' \<notin> set t) \<longrightarrow>
        split_on CHR '' '' (space_joined tokens) = tokens)"
proof (intro conjI impI)
  assume "buildQueryParams u vin scope country options = Inr p"
  then show "\<exists>strs. elements_toString scope = Inr strs
         \<and> map_of p ''scope'' = Some (JStr (space_joined strs))"
    by (rule buildQueryParams_lookup_scope)
next
  assume plain: "\<not> hasOwnProperty options ''hasOwnProperty''"
  have strings: "\<exists>q. buildQueryParams u vin (map JStr ts) country options = Inr q
         \<and> map_of q ''scope'' = Some (JStr (space_joined ts))" for ts
  proof -
    from plain obtain q where q: "buildQueryParams u vin (map JStr ts) country options = Inr q"
      using buildQueryParams_returns [of u vin "map JStr ts" country options]
      by (auto simp add: elements_toString_JStr)
    from buildQueryParams_lookup_scope [OF q]
    have "map_of q ''scope'' = Some (JStr (space_joined ts))"
      by (simp add: elements_toString_JStr)
    with q show ?thesis by blast
  qed
  show "\<exists>q. buildQueryParams u vin (map JStr tokens) country options = Inr q
         \<and> map_of q ''scope'' = Some (JStr (space_joined tokens))"
    by (rule strings)
  show "\<exists>q. buildQueryParams u vin [] country options = Inr q
         \<and> map_of q ''scope'' = Some (JStr [])"
    using strings [of "[]"] by simp
next
  assume "tokens \<noteq> [] \<and> (\<forall>t \<in> set tokens. CHR '' '' \<notin> set t)"
  then show "split_on CHR '' '' (space_joined tokens) = tokens"
    by (simp add: split_on_space_joined)
qed

text \<open>Three permissions, joined in the order given.\<close>

theorem buildQueryParams_scope_witness:
  "buildQueryParams (util_of_env []) (JStr ''1HGCM82633A004352'')
      (map JStr [''read_odometer'', ''read_location'', ''control_security''])
      (JStr ''US'') [] =
     Inr [(''vin'', JStr ''1HGCM82633A004352''),
          (''scope'', JStr ''read_odometer read_location control_security''),
          (''country'', JStr ''US'')]
   \<and> split_on CHR '' '' ''read_odometer read_location control_security'' =
     [''read_odometer'', ''read_location'', ''control_security'']"
  using buildQueryParams_scope [of "util_of_env []" "JStr ''1HGCM82633A004352''" "[]" "JStr ''US''" "[]"
      "[]" "[''read_odometer'', ''read_location'', ''control_security'']"]
  by (simp add: buildQueryParams_def Array_join_def call_hasOwnProperty_def hasOwnProperty_def
      get_prop_def Let_def)

text \<open>
  C10.  \<^verbatim>\<open>buildQueryParams\<close> returns a mapping exactly when the scope elements have
  string forms and the bag does not shadow \<^verbatim>\<open>hasOwnProperty\<close>.  The keys of the mapping
  returned are \<^verbatim>\<open>vin\<close>, \<^verbatim>\<open>scope\<close> and \<^verbatim>\<open>country\<close>, together with \<^verbatim>\<open>flags\<close> exactly when
  \<^verbatim>\<open>options.flags\<close> is truthy, \<^verbatim>\<open>mode\<close> exactly when the bag has a \<^verbatim>\<open>testMode\<close> key or
  a truthy \<^verbatim>\<open>testModeCompatibilityLevel\<close>, and \<^verbatim>\<open>test_mode_compatibility_level\<close> exactly
  when the level is truthy.  No key occurs twice, no other key occurs, and \<^verbatim>\<open>vin\<close>
  holds the VIN as given.
\<close>

theorem buildQueryParams_keys:
  "((\<exists>q. buildQueryParams u vin scope country options = Inr q) \<longleftrightarrow>
      (\<exists>strs. elements_toString scope = Inr strs) \<and> \<not> hasOwnProperty options ''hasOwnProperty'')
   \<and> (buildQueryParams u vin scope country options = Inr p \<longrightarrow>
      set (map fst p) =
        {''vin'', ''scope'', ''country''}
        \<union> (if truthy (get_prop options ''flags'') then {''flags''} else {})
        \<union> (if hasOwnProperty options ''testMode''
              \<or> truthy (get_prop options ''testModeCompatibilityLevel'')
           then {''mode''} else {})
        \<union> (if truthy (get_prop options ''testModeCompatibilityLevel'')
           then {''test_mode_compatibility_level''} else {})
      \<and> distinct (map fst p)
      \<and> map_of p ''vin'' = Some vin)"
proof (intro conjI impI)
  show "(\<exists>q. buildQueryParams u vin scope country options = Inr q) \<longleftrightarrow>
      (\<exists>strs. elements_toString scope = Inr strs) \<and> \<not> hasOwnProperty options ''hasOwnProperty''"
    by (rule buildQueryParams_returns)
next
  assume "buildQueryParams u vin scope country options = Inr p"
  then obtain strs where
    p: "p =
          (let p0 = [(''vin'', vin), (''scope'', JStr (join_loop '' '' strs 0 [])),
                     (''country'', country)];
               p1 = (if truthy (get_prop options ''flags'')
                     then set_prop p0 ''flags'' (getFlagsString u (get_prop options ''flags''))
                     else p0);
               p2 = (if hasOwnProperty options ''testMode''
                     then set_prop p1 ''mode''
                            (if truthy (get_prop options ''testMode'')
                             then JStr ''test'' else JStr ''live'')
                     else p1);
               p3 = (if truthy (get_prop options ''testModeCompatibilityLevel'')
                     then set_prop
                            (set_prop p2 ''test_mode_compatibility_level''
                               (get_prop options ''testModeCompatibilityLevel''))
                            ''mode'' (JStr ''test'')
                     else p2)
           in p3)"
    unfolding buildQueryParams_Inr by blast
  show "set (map fst p) =
        {''vin'', ''scope'', ''country''}
        \<union> (if truthy (get_prop options ''flags'') then {''flags''} else {})
        \<union> (if hasOwnProperty options ''testMode''
              \<or> truthy (get_prop options ''testModeCompatibilityLevel'')
           then {''mode''} else {})
        \<union> (if truthy (get_prop options ''testModeCompatibilityLevel'')
           then {''test_mode_compatibility_level''} else {})"
    unfolding p by (rule keys_general)
  show "distinct (map fst p)"
    by (simp add: p Let_def distinct_set_prop)
  show "map_of p ''vin'' = Some vin"
    by (simp add: p Let_def map_of_set_prop)
qed

text \<open>A bag with flags and \<^verbatim>\<open>testMode: false\<close>: five keys.\<close>

theorem buildQueryParams_keys_witness:
  "map_sum id (\<lambda>p. set (map fst p))
     (buildQueryParams (util_of_env []) (JStr ''1HGCM82633A004352'') [JStr ''read_odometer'']
        (JStr ''US'') [(''testMode'', JBool False), (''flags'', JObj [(''country'', JStr ''DE'')])]) =
     Inr {''vin'', ''scope'', ''country'', ''flags'', ''mode''}"
proof -
  let ?opts = "[(''testMode'', JBool False), (''flags'', JObj [(''country'', JStr ''DE'')])]"
  let ?call = "buildQueryParams (util_of_env []) (JStr ''1HGCM82633A004352'') [JStr ''read_odometer'']
        (JStr ''US'') ?opts"
  note k = buildQueryParams_keys [of "util_of_env []" "JStr ''1HGCM82633A004352''"
      "[JStr ''read_odometer'']" "JStr ''US''" ?opts]
  from k have "\<exists>q. ?call = Inr q"
    by (simp add: hasOwnProperty_def)
  then obtain q where q: "?call = Inr q" ..
  with k [of q] have "set (map fst q) = {''vin'', ''scope'', ''country'', ''flags'', ''mode''}"
    by (simp add: get_prop_def hasOwnProperty_def insert_commute)
  with q show ?thesis by simp
qed

text \<open>
  C1 as stated does not hold.  The bag \<^verbatim>\<open>{testMode: false, testModeCompatibilityLevel: 0}\<close>
  has the key \<^verbatim>\<open>testModeCompatibilityLevel\<close>, yet the guard
  \<^verbatim>\<open>if (options.testModeCompatibilityLevel)\<close> tests the value, which is falsy: the
  mode stays \<^verbatim>\<open>live\<close> and no level parameter is sent.
\<close>

theorem buildQueryParams_level_counterexample:
  "hasOwnProperty [(''testMode'', JBool False), (''testModeCompatibilityLevel'', JNum 0)]
     ''testModeCompatibilityLevel''
   \<and> buildQueryParams (util_of_env []) (JStr ''1HGCM82633A004352'') [JStr ''read_odometer'']
         (JStr ''US'') [(''testMode'', JBool False), (''testModeCompatibilityLevel'', JNum 0)] =
       Inr [(''vin'', JStr ''1HGCM82633A004352''), (''scope'', JStr ''read_odometer''),
            (''country'', JStr ''US''), (''mode'', JStr ''live'')]
   \<and> map_of [(''vin'', JStr ''1HGCM82633A004352''), (''scope'', JStr ''read_odometer''),
            (''country'', JStr ''US''), (''mode'', JStr ''live'')] ''mode'' \<noteq> Some (JStr ''test'')
   \<and> map_of [(''vin'', JStr ''1HGCM82633A004352''), (''scope'', JStr ''read_odometer''),
            (''country'', JStr ''US''), (''mode'', JStr ''live'')] ''test_mode_compatibility_level'' =
       None"
  by (simp add: hasOwnProperty_def buildQueryParams_def Array_join_def call_hasOwnProperty_def
      Let_def get_prop_def set_prop_def)

text \<open>
  C1, amended.  Let \<^verbatim>\<open>buildQueryParams\<close> return a mapping.  With a \<^verbatim>\<open>testMode\<close> key in the
  bag (whatever its value) and no truthy level, \<^verbatim>\<open>mode\<close> is \<^verbatim>\<open>test\<close> for a truthy
  \<^verbatim>\<open>testMode\<close> and \<^verbatim>\<open>live\<close> for a falsy one.  With a truthy
  \<^verbatim>\<open>testModeCompatibilityLevel\<close>, \<^verbatim>\<open>mode\<close> is \<^verbatim>\<open>test\<close> whatever \<^verbatim>\<open>testMode\<close> says, and the
  level is sent unchanged as \<^verbatim>\<open>test_mode_compatibility_level\<close>.  A level that is not
  truthy is not sent.  And a mapping is returned for every scope list of strings and
  every bag that does not shadow \<^verbatim>\<open>hasOwnProperty\<close>.
\<close>

theorem buildQueryParams_mode:
  "(buildQueryParams u vin scope country options = Inr p
      \<and> hasOwnProperty options ''testMode''
      \<and> \<not> truthy (get_prop options ''testModeCompatibilityLevel'') \<longrightarrow>
      map_of p ''mode'' =
        Some (if truthy (get_prop options ''testMode'') then JStr ''test'' else JStr ''live''))
   \<and> (buildQueryParams u vin scope country options = Inr p
      \<and> truthy (get_prop options ''testModeCompatibilityLevel'') \<longrightarrow>
      map_of p ''mode'' = Some (JStr ''test'') \<and>
      map_of p ''test_mode_compatibility_level'' =
        Some (get_prop options ''testModeCompatibilityLevel''))
   \<and> (buildQueryParams u vin scope country options = Inr p
      \<and> \<not> truthy (get_prop options ''testModeCompatibilityLevel'') \<longrightarrow>
      map_of p ''test_mode_compatibility_level'' = None)
   \<and> (\<not> hasOwnProperty options ''hasOwnProperty'' \<longrightarrow>
      (\<exists>q. buildQueryParams u vin (map JStr tokens) country options = Inr q))"
proof (intro conjI impI)
  show "\<exists>q. buildQueryParams u vin (map JStr tokens) country options = Inr q"
    if "\<not> hasOwnProperty options ''hasOwnProperty''"
    using that buildQueryParams_returns [of u vin "map JStr tokens" country options]
    by (simp add: elements_toString_JStr)
qed (auto simp add: buildQueryParams_Inr Let_def map_of_set_prop)

text \<open>
  \<^verbatim>\<open>testMode: false\<close> alone gives \<^verbatim>\<open>live\<close>, \<^verbatim>\<open>testMode: true\<close> gives \<^verbatim>\<open>test\<close>, and
  \<^verbatim>\<open>testMode: false\<close> next to the level \<^verbatim>\<open>compatible\<close> gives \<^verbatim>\<open>test\<close>.
\<close>

theorem buildQueryParams_mode_witness:
  "buildQueryParams (util_of_env []) (JStr ''1HGCM82633A004352'') [JStr ''read_odometer'']
      (JStr ''US'') [(''testMode'', JBool False)] =
     Inr [(''vin'', JStr ''1HGCM82633A004352''), (''scope'', JStr ''read_odometer''),
          (''country'', JStr ''US''), (''mode'', JStr ''live'')]
   \<and> buildQueryParams (util_of_env []) (JStr ''1HGCM82633A004352'') [JStr ''read_odometer'']
      (JStr ''US'') [(''testMode'', JBool True)] =
     Inr [(''vin'', JStr ''1HGCM82633A004352''), (''scope'', JStr ''read_odometer''),
          (''country'', JStr ''US''), (''mode'', JStr ''test'')]
   \<and> buildQueryParams (util_of_env []) (JStr ''1HGCM82633A004352'') [JStr ''read_odometer'']
      (JStr ''US'') [(''testMode'', JBool False), (''testModeCompatibilityLevel'', JStr ''compatible'')] =
     Inr [(''vin'', JStr ''1HGCM82633A004352''), (''scope'', JStr ''read_odometer''),
          (''country'', JStr ''US''), (''mode'', JStr ''test''),
          (''test_mode_compatibility_level'', JStr ''compatible'')]"
  using
    buildQueryParams_mode [of "util_of_env []" "JStr ''1HGCM82633A004352''"
      "[JStr ''read_odometer'']" "JStr ''US''" "[(''testMode'', JBool False)]"]
    buildQueryParams_mode [of "util_of_env []" "JStr ''1HGCM82633A004352''"
      "[JStr ''read_odometer'']" "JStr ''US''" "[(''testMode'', JBool True)]"]
    buildQueryParams_mode [of "util_of_env []" "JStr ''1HGCM82633A004352''"
      "[JStr ''read_odometer'']" "JStr ''US''"
      "[(''testMode'', JBool False), (''testModeCompatibilityLevel'', JStr ''compatible'')]"]
  by (simp add: buildQueryParams_def Array_join_def call_hasOwnProperty_def hasOwnProperty_def
      get_prop_def set_prop_def Let_def)

subsection \<open>Requests\<close>



lemma issued:
  "r \<in> set (fst (issue send prepared)) \<longleftrightarrow> prepared = Inr r"
  by (cases prepared) (auto simp add: issue_def)



lemma getUser_request_Inr:
  assumes "getUser_request u cfg accessToken = Inr r"
  obtains v where
    "js_toString (version cfg) = Inr v"
    "r = \<lparr> service =
            \<lparr> baseUrl = js_or (getConfig u ''SMARTCAR_API_ORIGIN'') (JStr (api cfg)),
              auth = [(''bearer'', accessToken)],
              qs = None \<rparr>,
          http_method = ''get'',
          path = ''/v'' @ v @ ''/user'' \<rparr>"
  using assms unfolding getUser_request_def Let_def
  by (auto split: sum.splits)

lemma getCompatibility_request_Inr:
  assumes "getCompatibility_request u cfg vin scope country_arg options_arg = Inr r"
  obtains clientId clientSecret parameters v where
    "js_or_throwing (get_prop (default_object options_arg) ''clientId'')
       (getOrThrowConfig u ''SMARTCAR_CLIENT_ID'') = Inr clientId"
    "js_or_throwing (get_prop (default_object options_arg) ''clientSecret'')
       (getOrThrowConfig u ''SMARTCAR_CLIENT_SECRET'') = Inr clientSecret"
    "buildQueryParams u vin scope (js_or country_arg (JStr ''US''))
       (default_object options_arg) = Inr parameters"
    "js_toString (js_or (get_prop (default_object options_arg) ''version'') (version cfg)) = Inr v"
    "r = \<lparr> service =
            \<lparr> baseUrl = js_or (getConfig u ''SMARTCAR_API_ORIGIN'') (JStr (api cfg)),
              auth = [(''user'', clientId), (''pass'', clientSecret)],
              qs = Some parameters \<rparr>,
          http_method = ''get'',
          path = ''v'' @ v @ ''/compatibility'' \<rparr>"
  using assms unfolding getCompatibility_request_def Let_def
  by (auto split: sum.splits)

lemma getCompatibility_request_Inl:
  "(\<exists>e. getCompatibility_request u cfg vin scope country_arg options_arg = Inl e) \<longleftrightarrow>
     (\<not> truthy (get_prop (default_object options_arg) ''clientId'')
        \<and> (\<exists>e. getOrThrowConfig u ''SMARTCAR_CLIENT_ID'' = Inl e))
     \<or> (\<not> truthy (get_prop (default_object options_arg) ''clientSecret'')
        \<and> (\<exists>e. getOrThrowConfig u ''SMARTCAR_CLIENT_SECRET'' = Inl e))
     \<or> (\<exists>e. elements_toString scope = Inl e)
     \<or> hasOwnProperty (default_object options_arg) ''hasOwnProperty''
     \<or> (\<exists>e. js_toString (js_or (get_prop (default_object options_arg) ''version'')
                               (version cfg)) = Inl e)"
proof -
  let ?b = "buildQueryParams u vin scope (js_or country_arg (JStr ''US''))
              (default_object options_arg)"
  have b: "(\<exists>e. elements_toString scope = Inl e)
             \<or> hasOwnProperty (default_object options_arg) ''hasOwnProperty''
           \<longleftrightarrow> (\<exists>e. ?b = Inl e)"
    by (simp add: buildQueryParams_Inl)
  have "(\<exists>e. getCompatibility_request u cfg vin scope country_arg options_arg = Inl e) \<longleftrightarrow>
     (\<not> truthy (get_prop (default_object options_arg) ''clientId'')
        \<and> (\<exists>e. getOrThrowConfig u ''SMARTCAR_CLIENT_ID'' = Inl e))
     \<or> (\<not> truthy (get_prop (default_object options_arg) ''clientSecret'')
        \<and> (\<exists>e. getOrThrowConfig u ''SMARTCAR_CLIENT_SECRET'' = Inl e))
     \<or> (\<exists>e. ?b = Inl e)
     \<or> (\<exists>e. js_toString (js_or (get_prop (default_object options_arg) ''version'')
                               (version cfg)) = Inl e)"
    unfolding getCompatibility_request_def Let_def js_or_throwing_def
    by (auto split: sum.splits)
  then show ?thesis
    unfolding b [symmetric] by blast
qed

lemma getCompatibility_request_supplied:
  assumes "truthy (get_prop (default_object options_arg) ''clientId'')"
    and "truthy (get_prop (default_object options_arg) ''clientSecret'')"
    and "elements_toString scope = Inr strs"
    and "\<not> hasOwnProperty (default_object options_arg) ''hasOwnProperty''"
    and "js_toString (js_or (get_prop (default_object options_arg) ''version'') (version cfg)) = Inr v"
  shows "\<exists>r. getCompatibility_request u cfg vin scope country_arg options_arg = Inr r"
proof (cases "getCompatibility_request u cfg vin scope country_arg options_arg")
  case (Inl e)
  then have "\<exists>e. getCompatibility_request u cfg vin scope country_arg options_arg = Inl e"
    by blast
  with assms show ?thesis
    unfolding getCompatibility_request_Inl by simp
next
  case (Inr r)
  then show ?thesis by blast
qed




lemma util_of_env_getConfig:
  "getConfig (util_of_env env) name =
     (case map_of env name of None \<Rightarrow> JUndefined | Some s \<Rightarrow> JStr s)"
  by (simp add: util_of_env_def)





text \<open>
  C6.  Every request of \<^verbatim>\<open>getUser\<close> and of \<^verbatim>\<open>getVehicles\<close> has the auth object
  \<^verbatim>\<open>{bearer: accessToken}\<close> and nothing of basic auth; every request of
  \<^verbatim>\<open>getCompatibility\<close> has the auth keys \<^verbatim>\<open>user\<close> and \<^verbatim>\<open>pass\<close> and no bearer token.
  No request carries both.
\<close>

theorem requests_one_auth:
  fixes send :: "request \<Rightarrow> 'r"
  shows
  "(\<forall>r \<in> set (fst (getUser send u cfg accessToken)).
      auth (service r) = [(''bearer'', accessToken)] \<and> carries_bearer r \<and> \<not> carries_basic r)
   \<and> (\<forall>r \<in> set (fst (getVehicles send u cfg accessToken paging)).
      auth (service r) = [(''bearer'', accessToken)] \<and> carries_bearer r \<and> \<not> carries_basic r)
   \<and> (\<forall>r \<in> set (fst (getCompatibility send u cfg vin scope country options)).
      map fst (auth (service r)) = [''user'', ''pass''] \<and> carries_basic r \<and> \<not> carries_bearer r)"
proof (intro conjI ballI)
  fix r assume "r \<in> set (fst (getUser send u cfg accessToken))"
  then have "getUser_request u cfg accessToken = Inr r"
    by (simp add: getUser_def issued)
  then show a: "auth (service r) = [(''bearer'', accessToken)]"
    by (rule getUser_request_Inr) simp
  then show "carries_bearer r" "\<not> carries_basic r"
    by (simp_all add: carries_bearer_def carries_basic_def hasOwnProperty_def)
next
  fix r assume "r \<in> set (fst (getVehicles send u cfg accessToken paging))"
  then have "getVehicles_request u cfg accessToken paging = Inr r"
    by (simp add: getVehicles_def issued)
  then show "auth (service r) = [(''bearer'', accessToken)]"
    by (auto simp add: getVehicles_request_def Let_def)
  then show "carries_bearer r" "\<not> carries_basic r"
    by (simp_all add: carries_bearer_def carries_basic_def hasOwnProperty_def)
next
  fix r assume "r \<in> set (fst (getCompatibility send u cfg vin scope country options))"
  then have "getCompatibility_request u cfg vin scope country options = Inr r"
    by (simp add: getCompatibility_def issued)
  then obtain clientId clientSecret where
    a: "auth (service r) = [(''user'', clientId), (''pass'', clientSecret)]"
    by (rule getCompatibility_request_Inr) simp
  show "map fst (auth (service r)) = [''user'', ''pass'']"
    by (simp add: a)
  show "carries_basic r" "\<not> carries_bearer r"
    by (simp_all add: a carries_bearer_def carries_basic_def hasOwnProperty_def)
qed

text \<open>
  Each of the three operations issues one request: \<^verbatim>\<open>getUser\<close> and \<^verbatim>\<open>getVehicles\<close>
  with the bearer token only, \<^verbatim>\<open>getCompatibility\<close> with the client id and secret only.
\<close>

theorem requests_one_auth_witness:
  "map (\<lambda>r. (auth (service r), carries_bearer r, carries_basic r))
     (fst (getUser path (util_of_env [])
        \<lparr>api = ''https://api.smartcar.com'', version = JStr ''2.0''\<rparr> (JStr ''token''))) =
     [([(''bearer'', JStr ''token'')], True, False)]
   \<and> map (\<lambda>r. (auth (service r), carries_bearer r, carries_basic r))
     (fst (getVehicles path (util_of_env [])
        \<lparr>api = ''https://api.smartcar.com'', version = JStr ''2.0''\<rparr> (JStr ''token'') None)) =
     [([(''bearer'', JStr ''token'')], True, False)]
   \<and> map (\<lambda>r. (auth (service r), carries_bearer r, carries_basic r))
     (fst (getCompatibility path (util_of_env [])
        \<lparr>api = ''https://api.smartcar.com'', version = JStr ''2.0''\<rparr>
        (JStr ''1HGCM82633A004352'') [JStr ''read_odometer''] (JStr ''US'')
        (Some [(''clientId'', JStr ''id''), (''clientSecret'', JStr ''secret'')]))) =
     [([(''user'', JStr ''id''), (''pass'', JStr ''secret'')], False, True)]"
proof -
  let ?cfg = "\<lparr>api = ''https://api.smartcar.com'', version = JStr ''2.0''\<rparr>"
  let ?opts = "Some [(''clientId'', JStr ''id''), (''clientSecret'', JStr ''secret'')]"
  have "\<exists>r. getUser_request (util_of_env []) ?cfg (JStr ''token'') = Inr r"
    by (simp add: getUser_request_def)
  then obtain r1 where r1: "getUser_request (util_of_env []) ?cfg (JStr ''token'') = Inr r1" ..
  have "\<exists>r. getVehicles_request (util_of_env []) ?cfg (JStr ''token'') None = Inr r"
    by (simp add: getVehicles_request_def)
  then obtain r2 where
    r2: "getVehicles_request (util_of_env []) ?cfg (JStr ''token'') None = Inr r2" ..
  have "\<exists>r. getCompatibility_request (util_of_env []) ?cfg (JStr ''1HGCM82633A004352'')
      [JStr ''read_odometer''] (JStr ''US'') ?opts = Inr r"
    by (rule getCompatibility_request_supplied
          [where strs = "[''read_odometer'']" and v = "''2.0''"])
       (simp_all add: default_object_def get_prop_def hasOwnProperty_def js_or_def)
  then obtain r3 where r3: "getCompatibility_request (util_of_env []) ?cfg (JStr ''1HGCM82633A004352'')
      [JStr ''read_odometer''] (JStr ''US'') ?opts = Inr r3" ..
  from r3 have a3: "auth (service r3) = [(''user'', JStr ''id''), (''pass'', JStr ''secret'')]"
    by (rule getCompatibility_request_Inr)
       (simp add: js_or_throwing_def default_object_def get_prop_def)
  show ?thesis
    using requests_one_auth [of path "util_of_env []" ?cfg "JStr ''token''" None
        "JStr ''1HGCM82633A004352''" "[JStr ''read_odometer'']" "JStr ''US''" ?opts]
    by (simp add: getUser_def getVehicles_def getCompatibility_def issue_def r1 r2 r3 a3)
qed

text \<open>
  C7.  When \<^verbatim>\<open>getCompatibility\<close> gets as far as its request, the \<^verbatim>\<open>country\<close>
  parameter is \<^verbatim>\<open>US\<close> for an absent country (\<^verbatim>\<open>undefined\<close>, or \<^verbatim>\<open>null\<close>) and for
  the empty string, and the given string otherwise; any truthy value is passed
  through as it is.
\<close>

theorem getCompatibility_country:
  "(getCompatibility_request u cfg vin scope JUndefined options = Inr r \<longrightarrow>
      query_param r ''country'' = Some (JStr ''US''))
   \<and> (getCompatibility_request u cfg vin scope JNull options = Inr r \<longrightarrow>
      query_param r ''country'' = Some (JStr ''US''))
   \<and> (getCompatibility_request u cfg vin scope (JStr s) options = Inr r \<longrightarrow>
      query_param r ''country'' = Some (if s = [] then JStr ''US'' else JStr s))
   \<and> (truthy country \<and> getCompatibility_request u cfg vin scope country options = Inr r \<longrightarrow>
      query_param r ''country'' = Some country)"
proof -
  have "query_param r ''country'' = Some (js_or c (JStr ''US''))"
    if "getCompatibility_request u cfg vin scope c options = Inr r" for c
    using that
    by (rule getCompatibility_request_Inr)
       (simp add: query_param_def buildQueryParams_lookup_country)
  then show ?thesis
    by (auto simp add: js_or_def)
qed

text \<open>No country, the empty string, and \<^verbatim>\<open>DE\<close>.\<close>

theorem getCompatibility_country_witness:
  "map_sum id (\<lambda>r. query_param r ''country'')
     (getCompatibility_request (util_of_env [])
        \<lparr>api = ''https://api.smartcar.com'', version = JStr ''2.0''\<rparr>
        (JStr ''1HGCM82633A004352'') [JStr ''read_odometer''] JUndefined
        (Some [(''clientId'', JStr ''id''), (''clientSecret'', JStr ''secret'')])) =
     Inr (Some (JStr ''US''))
   \<and> map_sum id (\<lambda>r. query_param r ''country'')
     (getCompatibility_request (util_of_env [])
        \<lparr>api = ''https://api.smartcar.com'', version = JStr ''2.0''\<rparr>
        (JStr ''1HGCM82633A004352'') [JStr ''read_odometer''] (JStr [])
        (Some [(''clientId'', JStr ''id''), (''clientSecret'', JStr ''secret'')])) =
     Inr (Some (JStr ''US''))
   \<and> map_sum id (\<lambda>r. query_param r ''country'')
     (getCompatibility_request (util_of_env [])
        \<lparr>api = ''https://api.smartcar.com'', version = JStr ''2.0''\<rparr>
        (JStr ''1HGCM82633A004352'') [JStr ''read_odometer''] (JStr ''DE'')
        (Some [(''clientId'', JStr ''id''), (''clientSecret'', JStr ''secret'')])) =
     Inr (Some (JStr ''DE''))"
proof -
  let ?cfg = "\<lparr>api = ''https://api.smartcar.com'', version = JStr ''2.0''\<rparr>"
  let ?opts = "Some [(''clientId'', JStr ''id''), (''clientSecret'', JStr ''secret'')]"
  let ?req = "getCompatibility_request (util_of_env []) ?cfg (JStr ''1HGCM82633A004352'')
                [JStr ''read_odometer'']"
  have returns: "\<exists>r. ?req c ?opts = Inr r" for c
    by (rule getCompatibility_request_supplied
          [where strs = "[''read_odometer'']" and v = "''2.0''"])
       (simp_all add: default_object_def get_prop_def hasOwnProperty_def js_or_def)
  from returns obtain r1 where r1: "?req JUndefined ?opts = Inr r1" ..
  from returns obtain r2 where r2: "?req (JStr []) ?opts = Inr r2" ..
  from returns obtain r3 where r3: "?req (JStr ''DE'') ?opts = Inr r3" ..
  from getCompatibility_country [of "util_of_env []" ?cfg "JStr ''1HGCM82633A004352''"
      "[JStr ''read_odometer'']" ?opts r1 "[]" "JUndefined"] r1
  have "query_param r1 ''country'' = Some (JStr ''US'')" by simp
  moreover
  from getCompatibility_country [of "util_of_env []" ?cfg "JStr ''1HGCM82633A004352''"
      "[JStr ''read_odometer'']" ?opts r2 "[]" "JUndefined"] r2
  have "query_param r2 ''country'' = Some (JStr ''US'')" by simp
  moreover
  from getCompatibility_country [of "util_of_env []" ?cfg "JStr ''1HGCM82633A004352''"
      "[JStr ''read_odometer'']" ?opts r3 "''DE''" "JUndefined"] r3
  have "query_param r3 ''country'' = Some (JStr ''DE'')" by simp
  ultimately show ?thesis
    by (simp add: r1 r2 r3)
qed

text \<open>
  C9 as stated does not hold.  With \<^verbatim>\<open>SMARTCAR_API_ORIGIN\<close> set to the empty string
  the override is set, and \<^verbatim>\<open>lib/util\<close> as the specification describes it reads the
  empty string; \<^verbatim>\<open>util.getConfig('SMARTCAR_API_ORIGIN') || config.api\<close> is then
  \<^verbatim>\<open>config.api\<close>.
\<close>

theorem baseUrl_empty_override_counterexample:
  "getConfig (util_of_env [(''SMARTCAR_API_ORIGIN'', [])]) ''SMARTCAR_API_ORIGIN'' = JStr []
   \<and> getUser_request (util_of_env [(''SMARTCAR_API_ORIGIN'', [])])
       \<lparr>api = ''https://api.smartcar.com'', version = JStr ''2.0''\<rparr> (JStr ''token'') =
     Inr \<lparr>service =
            \<lparr>baseUrl = JStr ''https://api.smartcar.com'',
             auth = [(''bearer'', JStr ''token'')],
             qs = None\<rparr>,
          http_method = ''get'', path = ''/v2.0/user''\<rparr>"
  by (simp add: getUser_request_def util_of_env_def js_or_def)

text \<open>
  C9, amended.  The base URL of \<^verbatim>\<open>getUser\<close> and of \<^verbatim>\<open>getCompatibility\<close> is what the
  lookup of \<^verbatim>\<open>SMARTCAR_API_ORIGIN\<close> yields whenever that is truthy, and the configured
  \<^verbatim>\<open>config.api\<close> otherwise.  With \<^verbatim>\<open>lib/util\<close> as the specification describes it: the
  override when it is set to a non-empty string, and \<^verbatim>\<open>config.api\<close> when it is unset
  or set to the empty string.  \<^verbatim>\<open>getApiVersion\<close> after \<^verbatim>\<open>setApiVersion(v)\<close> returns
  \<^verbatim>\<open>v\<close>, and setting the version leaves the origin alone.
\<close>

theorem baseUrl_override_first:
  "(getUser_request u cfg accessToken = Inr r \<longrightarrow>
      baseUrl (service r) =
        (if truthy (getConfig u ''SMARTCAR_API_ORIGIN'') then getConfig u ''SMARTCAR_API_ORIGIN''
         else JStr (api cfg)))
   \<and> (getCompatibility_request u cfg vin scope country options = Inr r \<longrightarrow>
      baseUrl (service r) =
        (if truthy (getConfig u ''SMARTCAR_API_ORIGIN'') then getConfig u ''SMARTCAR_API_ORIGIN''
         else JStr (api cfg)))
   \<and> (getUser_request (util_of_env env) cfg accessToken = Inr r \<longrightarrow>
      baseUrl (service r) =
        (case map_of env ''SMARTCAR_API_ORIGIN'' of
           None \<Rightarrow> JStr (api cfg)
         | Some s \<Rightarrow> if s = [] then JStr (api cfg) else JStr s))
   \<and> (getCompatibility_request (util_of_env env) cfg vin scope country options = Inr r \<longrightarrow>
      baseUrl (service r) =
        (case map_of env ''SMARTCAR_API_ORIGIN'' of
           None \<Rightarrow> JStr (api cfg)
         | Some s \<Rightarrow> if s = [] then JStr (api cfg) else JStr s))
   \<and> (version cfg = JStr s \<longrightarrow> (\<exists>q. getUser_request u cfg accessToken = Inr q))
   \<and> getApiVersion (setApiVersion v cfg) = v
   \<and> api (setApiVersion v cfg) = api cfg"
proof -
  have user: "baseUrl (service q) = js_or (getConfig w ''SMARTCAR_API_ORIGIN'') (JStr (api cfg))"
    if "getUser_request w cfg accessToken = Inr q" for w q
    using that by (rule getUser_request_Inr) simp
  have compat: "baseUrl (service q) = js_or (getConfig w ''SMARTCAR_API_ORIGIN'') (JStr (api cfg))"
    if "getCompatibility_request w cfg vin scope country options = Inr q" for w q
    using that by (rule getCompatibility_request_Inr) simp
  have env: "js_or (getConfig (util_of_env env) ''SMARTCAR_API_ORIGIN'') (JStr (api cfg)) =
        (case map_of env ''SMARTCAR_API_ORIGIN'' of
           None \<Rightarrow> JStr (api cfg)
         | Some s \<Rightarrow> if s = [] then JStr (api cfg) else JStr s)"
    by (simp add: util_of_env_getConfig js_or_def split: option.splits)
  have returns: "\<exists>q. getUser_request u cfg accessToken = Inr q" if "version cfg = JStr s"
    using that by (simp add: getUser_request_def)
  show ?thesis
  proof (intro conjI impI)
    show "baseUrl (service r) =
        (if truthy (getConfig u ''SMARTCAR_API_ORIGIN'') then getConfig u ''SMARTCAR_API_ORIGIN''
         else JStr (api cfg))"
      if "getUser_request u cfg accessToken = Inr r"
      using user [OF that] by (simp add: js_or_def)
    show "baseUrl (service r) =
        (if truthy (getConfig u ''SMARTCAR_API_ORIGIN'') then getConfig u ''SMARTCAR_API_ORIGIN''
         else JStr (api cfg))"
      if "getCompatibility_request u cfg vin scope country options = Inr r"
      using compat [OF that] by (simp add: js_or_def)
    show "baseUrl (service r) =
        (case map_of env ''SMARTCAR_API_ORIGIN'' of
           None \<Rightarrow> JStr (api cfg)
         | Some s \<Rightarrow> if s = [] then JStr (api cfg) else JStr s)"
      if "getUser_request (util_of_env env) cfg accessToken = Inr r"
      using user [OF that] by (simp only: env)
    show "baseUrl (service r) =
        (case map_of env ''SMARTCAR_API_ORIGIN'' of
           None \<Rightarrow> JStr (api cfg)
         | Some s \<Rightarrow> if s = [] then JStr (api cfg) else JStr s)"
      if "getCompatibility_request (util_of_env env) cfg vin scope country options = Inr r"
      using compat [OF that] by (simp only: env)
    show "\<exists>q. getUser_request u cfg accessToken = Inr q" if "version cfg = JStr s"
      using that by (rule returns)
    show "getApiVersion (setApiVersion v cfg) = v" "api (setApiVersion v cfg) = api cfg"
      by (simp_all add: getApiVersion_def setApiVersion_def)
  qed
qed

text \<open>
  With the override set it is the base URL of both operations; without it, and with
  the override set to the empty string, the configured origin is.
\<close>

theorem baseUrl_override_first_witness:
  "map_sum id (\<lambda>r. baseUrl (service r))
     (getUser_request (util_of_env [(''SMARTCAR_API_ORIGIN'', ''http://localhost:3000'')])
       \<lparr>api = ''https://api.smartcar.com'', version = JStr ''2.0''\<rparr> (JStr ''token'')) =
     Inr (JStr ''http://localhost:3000'')
   \<and> map_sum id (\<lambda>r. baseUrl (service r))
     (getUser_request (util_of_env [])
       \<lparr>api = ''https://api.smartcar.com'', version = JStr ''2.0''\<rparr> (JStr ''token'')) =
     Inr (JStr ''https://api.smartcar.com'')
   \<and> map_sum id (\<lambda>r. baseUrl (service r))
     (getUser_request (util_of_env [(''SMARTCAR_API_ORIGIN'', [])])
       \<lparr>api = ''https://api.smartcar.com'', version = JStr ''2.0''\<rparr> (JStr ''token'')) =
     Inr (JStr ''https://api.smartcar.com'')
   \<and> map_sum id (\<lambda>r. baseUrl (service r))
       (getCompatibility_request (util_of_env [(''SMARTCAR_API_ORIGIN'', ''http://localhost:3000'')])
          \<lparr>api = ''https://api.smartcar.com'', version = JStr ''2.0''\<rparr>
          (JStr ''1HGCM82633A004352'') [JStr ''read_odometer''] (JStr ''US'')
          (Some [(''clientId'', JStr ''id''), (''clientSecret'', JStr ''secret'')])) =
     Inr (JStr ''http://localhost:3000'')
   \<and> getApiVersion (setApiVersion (JStr ''1.0'')
        \<lparr>api = ''https://api.smartcar.com'', version = JStr ''2.0''\<rparr>) = JStr ''1.0''"
proof -
  let ?cfg = "\<lparr>api = ''https://api.smartcar.com'', version = JStr ''2.0''\<rparr>"
  let ?opts = "Some [(''clientId'', JStr ''id''), (''clientSecret'', JStr ''secret'')]"
  let ?set = "[(''SMARTCAR_API_ORIGIN'', ''http://localhost:3000'')]"
  let ?empty = "[(''SMARTCAR_API_ORIGIN'', [])]"
  have user: "\<exists>r. getUser_request (util_of_env env) ?cfg (JStr ''token'') = Inr r" for env
    by (simp add: getUser_request_def)
  from user obtain r1 where r1: "getUser_request (util_of_env ?set) ?cfg (JStr ''token'') = Inr r1" ..
  from user obtain r2 where r2: "getUser_request (util_of_env []) ?cfg (JStr ''token'') = Inr r2" ..
  from user obtain r3 where r3: "getUser_request (util_of_env ?empty) ?cfg (JStr ''token'') = Inr r3" ..
  have "\<exists>r. getCompatibility_request (util_of_env ?set) ?cfg (JStr ''1HGCM82633A004352'')
      [JStr ''read_odometer''] (JStr ''US'') ?opts = Inr r"
    by (rule getCompatibility_request_supplied
          [where strs = "[''read_odometer'']" and v = "''2.0''"])
       (simp_all add: default_object_def get_prop_def hasOwnProperty_def js_or_def)
  then obtain r4 where r4: "getCompatibility_request (util_of_env ?set) ?cfg
      (JStr ''1HGCM82633A004352'') [JStr ''read_odometer''] (JStr ''US'') ?opts = Inr r4" ..
  show ?thesis
    using r1 r2 r3 r4
      baseUrl_override_first [of "util_of_env ?set" ?cfg "JStr ''token''" r1
        "JStr ''1HGCM82633A004352''" "[JStr ''read_odometer'']" "JStr ''US''" ?opts ?set
        "''2.0''" "JStr ''1.0''"]
      baseUrl_override_first [of "util_of_env []" ?cfg "JStr ''token''" r2
        "JStr ''1HGCM82633A004352''" "[JStr ''read_odometer'']" "JStr ''US''" ?opts "[]"
        "''2.0''" "JStr ''1.0''"]
      baseUrl_override_first [of "util_of_env ?empty" ?cfg "JStr ''token''" r3
        "JStr ''1HGCM82633A004352''" "[JStr ''read_odometer'']" "JStr ''US''" ?opts ?empty
        "''2.0''" "JStr ''1.0''"]
      baseUrl_override_first [of "util_of_env ?set" ?cfg "JStr ''token''" r4
        "JStr ''1HGCM82633A004352''" "[JStr ''read_odometer'']" "JStr ''US''" ?opts ?set
        "''2.0''" "JStr ''1.0''"]
    by (simp add: util_of_env_getConfig)
qed

subsection \<open>Paths\<close>



subsection \<open>Digests\<close>

lemma length_sha256_round: "length (sha256_round s kw) = length s"
  by (induction s kw rule: sha256_round.induct) (simp_all add: Let_def)

lemma length_foldl_sha256_round: "length (foldl sha256_round s kws) = length s"
  by (induction kws arbitrary: s) (simp_all add: length_sha256_round)

lemma length_compress: "length (compress hs block) = length hs"
  by (simp add: compress_def length_foldl_sha256_round)

lemma length_sha256_blocks: "length (sha256_blocks n hs bs) = length hs"
  by (induction n arbitrary: hs bs) (simp_all add: length_compress)

lemma length_concat_bytes_of_u32: "length (concat (map bytes_of_u32 ws)) = 4 * length ws"
  by (induction ws) (simp_all add: bytes_of_u32_def)

lemma length_sha256: "length (sha256 m) = 32"
  by (simp add: sha256_def Let_def length_concat_bytes_of_u32 length_sha256_blocks sha256_H0_def)

lemma map2_replicate:
  "length xs = n \<Longrightarrow> map2 f xs (replicate n c) = map (\<lambda>x. f x c) xs"
  by (induction xs arbitrary: n) auto

lemma length_key_block: "length (key_block (createHmac_sha256 key)) = 64"
  by (simp add: createHmac_sha256_def Let_def length_sha256)

text \<open>
  C8.  For every token and challenge, \<^verbatim>\<open>hashChallenge\<close> is the lowercase hexadecimal
  rendering of the HMAC-SHA256 of the challenge under the token as key, as RFC 2104
  defines it over the SHA-256 of FIPS 180-4.
\<close>

theorem hashChallenge_HMAC_SHA256:
  "hashChallenge amt challenge =
     hex_of_bytes (HMAC_SHA256_reference (bytes_of_string amt) (bytes_of_string challenge))"
proof -
  let ?K = "bytes_of_string amt"
  let ?Kh = "if 64 < length ?K then sha256 ?K else ?K"
  let ?K' = "?Kh @ replicate (64 - length ?Kh) 0"
  have len: "length ?K' = 64"
    by (simp add: length_sha256)
  have kb: "key_block (createHmac_sha256 amt) = ?K'"
    by (simp add: createHmac_sha256_def Let_def)
  have "hashChallenge amt challenge =
      hex_of_bytes (sha256 (map (\<lambda>b. b XOR 0x5c) ?K' @
        sha256 (map (\<lambda>b. b XOR 0x36) ?K' @ bytes_of_string challenge)))"
    unfolding hashChallenge_def Let_def digest_hex_def
    by (simp only: update_def kb Hmac.simps createHmac_sha256_def Let_def append_Nil)
  also have "\<dots> = hex_of_bytes (HMAC_SHA256_reference ?K (bytes_of_string challenge))"
    unfolding HMAC_SHA256_reference_def Let_def
    by (simp only: map2_replicate [OF len])
  finally show ?thesis .
qed

lemma sha256_two_blocks:
  assumes "length (sha256_pad m) = 128"
    and "compress sha256_H0 (words_of 16 (take 64 (sha256_pad m))) = s1"
    and "compress s1 (words_of 16 (drop 64 (sha256_pad m))) = s2"
  shows "sha256 m = concat (map bytes_of_u32 s2)"
proof -
  have "sha256_blocks (Suc (Suc 0)) sha256_H0 (sha256_pad m) = s2"
    using assms by simp
  moreover have "length (sha256_pad m) div 64 = Suc (Suc 0)"
    using assms(1) by simp
  ultimately show ?thesis
    by (simp only: sha256_def Let_def)
qed

lemma HMAC_SHA256_reference_short_key:
  assumes "length K \<le> 64"
    and "sha256 (map (\<lambda>b. b XOR 0x36) (K @ replicate (64 - length K) 0) @ txt) = inner"
    and "sha256 (map (\<lambda>b. b XOR 0x5c) (K @ replicate (64 - length K) 0) @ inner) = outer"
  shows "HMAC_SHA256_reference K txt = outer"
proof -
  have len: "length (K @ replicate (64 - length K) 0) = 64"
    using assms(1) by simp
  have "\<not> 64 < length K"
    using assms(1) by simp
  then show ?thesis
    unfolding HMAC_SHA256_reference_def Let_def
    by (simp only: if_False map2_replicate [OF len] assms(2) assms(3))
qed

text \<open>The known answer, one compression at a time.\<close>

lemma kat_lengths: "length (sha256_pad kat_inner) = 128 \<and> length (sha256_pad kat_outer) = 128"
  by code_simp

lemma kat_compress1: "compress sha256_H0 (words_of 16 (take 64 (sha256_pad kat_inner))) = kat_state1"
  by code_simp

lemma kat_compress2: "compress kat_state1 (words_of 16 (drop 64 (sha256_pad kat_inner))) = kat_state2"
  by code_simp

lemma kat_compress3: "compress sha256_H0 (words_of 16 (take 64 (sha256_pad kat_outer))) = kat_state3"
  by code_simp

lemma kat_compress4: "compress kat_state3 (words_of 16 (drop 64 (sha256_pad kat_outer))) = kat_state4"
  by code_simp

lemma kat_hex:
  "hex_of_bytes (concat (map bytes_of_u32 kat_state4)) =
     ''5bdcc146bf60754e6a042426089575c75a003f089d2739839dec58b964ec3843''"
  by code_simp

text \<open>
  The digest RFC 4231 lists for its test case 2, computed block by block.
\<close>

theorem hashChallenge_known_answer:
  "hashChallenge ''Jefe'' ''what do ya want for nothing?'' =
     ''5bdcc146bf60754e6a042426089575c75a003f089d2739839dec58b964ec3843''"
proof -
  have inner: "sha256 kat_inner = concat (map bytes_of_u32 kat_state2)"
    using kat_lengths kat_compress1 kat_compress2 by (intro sha256_two_blocks) simp_all
  have outer: "sha256 kat_outer = concat (map bytes_of_u32 kat_state4)"
    using kat_lengths kat_compress3 kat_compress4 by (intro sha256_two_blocks) simp_all
  have "HMAC_SHA256_reference (bytes_of_string ''Jefe'')
          (bytes_of_string ''what do ya want for nothing?'') =
        concat (map bytes_of_u32 kat_state4)"
  proof (rule HMAC_SHA256_reference_short_key)
    show "length (bytes_of_string ''Jefe'') \<le> 64"
      by (simp add: bytes_of_string_def)
    show "sha256 (map (\<lambda>b. b XOR 0x36)
            (bytes_of_string ''Jefe'' @ replicate (64 - length (bytes_of_string ''Jefe'')) 0)
          @ bytes_of_string ''what do ya want for nothing?'') =
          concat (map bytes_of_u32 kat_state2)"
      using inner by (simp only: kat_inner_def)
    show "sha256 (map (\<lambda>b. b XOR 0x5c)
            (bytes_of_string ''Jefe'' @ replicate (64 - length (bytes_of_string ''Jefe'')) 0)
          @ concat (map bytes_of_u32 kat_state2)) =
          concat (map bytes_of_u32 kat_state4)"
      using outer by (simp only: kat_outer_def)
  qed
  with hashChallenge_HMAC_SHA256 [of "''Jefe''" "''what do ya want for nothing?''"] kat_hex
  show ?thesis
    by (simp only:)
qed

lemma hex_digits: "map hex_digit [0 ..< 16] = ''0123456789abcdef''"
  by code_simp

lemma hex_digit_lowercase: "n < 16 \<Longrightarrow> hex_digit n \<in> set ''0123456789abcdef''"
proof -
  assume "n < 16"
  then have "hex_digit n \<in> set (map hex_digit [0 ..< 16])"
    by simp
  then show ?thesis
    by (simp only: hex_digits)
qed

lemma hex_of_bytes_lowercase: "set (hex_of_bytes bs) \<subseteq> set ''0123456789abcdef''"
proof (induction bs)
  case Nil
  then show ?case by (simp add: hex_of_bytes_def)
next
  case (Cons b bs)
  have "unat b < 256"
    using unsigned_less [of b, where ?'a = nat] by simp
  then have "unat b div 16 < 16" "unat b mod 16 < 16"
    by simp_all
  then have "hex_digit (unat b div 16) \<in> set ''0123456789abcdef''"
    "hex_digit (unat b mod 16) \<in> set ''0123456789abcdef''"
    by (simp_all only: hex_digit_lowercase)
  with Cons show ?case
    by (simp add: hex_of_bytes_def)
qed

lemma length_hex_of_bytes: "length (hex_of_bytes bs) = 2 * length bs"
  by (induction bs) (simp_all add: hex_of_bytes_def)

lemma hashChallenge_lowercase: "set (hashChallenge amt challenge) \<subseteq> set ''0123456789abcdef''"
  unfolding hashChallenge_def Let_def digest_hex_def by (rule hex_of_bytes_lowercase)

lemma length_hashChallenge: "length (hashChallenge amt challenge) = 64"
  by (simp add: hashChallenge_def Let_def digest_hex_def length_hex_of_bytes length_sha256)

lemma JSON_stringify_None: "JSON_stringify body = None \<longleftrightarrow> body = JUndefined"
  by (cases body) simp_all

text \<open>
  C2.  \<^verbatim>\<open>verifyPayload\<close> returns \<^verbatim>\<open>true\<close> exactly when the signature is the string
  \<^verbatim>\<open>hashChallenge(amt, JSON.stringify(body))\<close>.  For every body that serialises (every
  body but \<^verbatim>\<open>undefined\<close>) it returns whether the signature equals that digest: the
  digest itself verifies, everything else is refused.  The digest is lowercase
  hexadecimal, so a signature with any other character, an uppercase hex letter
  included, is refused.
\<close>

theorem verifyPayload_iff:
  "(verifyPayload amt signature body = Inr True \<longleftrightarrow>
      (\<exists>s. JSON_stringify body = Some s \<and> signature = JStr (hashChallenge amt s)))
   \<and> (body \<noteq> JUndefined \<longrightarrow>
      (\<exists>s. JSON_stringify body = Some s
         \<and> verifyPayload amt signature body = Inr (signature = JStr (hashChallenge amt s))
         \<and> verifyPayload amt (JStr (hashChallenge amt s)) body = Inr True))
   \<and> (body \<noteq> JUndefined \<and> (\<exists>c \<in> set sig. c \<notin> set ''0123456789abcdef'') \<longrightarrow>
      verifyPayload amt (JStr sig) body = Inr False)"
proof (intro conjI impI)
  show "verifyPayload amt signature body = Inr True \<longleftrightarrow>
      (\<exists>s. JSON_stringify body = Some s \<and> signature = JStr (hashChallenge amt s))"
    by (cases "JSON_stringify body") (auto simp add: verifyPayload_def)
next
  assume "body \<noteq> JUndefined"
  then obtain s where s: "JSON_stringify body = Some s"
    using JSON_stringify_None [of body] by auto
  then have "verifyPayload amt signature body = Inr (signature = JStr (hashChallenge amt s))"
    "verifyPayload amt (JStr (hashChallenge amt s)) body = Inr True"
    by (auto simp add: verifyPayload_def)
  with s show "\<exists>s. JSON_stringify body = Some s
         \<and> verifyPayload amt signature body = Inr (signature = JStr (hashChallenge amt s))
         \<and> verifyPayload amt (JStr (hashChallenge amt s)) body = Inr True"
    by blast
next
  assume a: "body \<noteq> JUndefined \<and> (\<exists>c \<in> set sig. c \<notin> set ''0123456789abcdef'')"
  then obtain s where s: "JSON_stringify body = Some s"
    using JSON_stringify_None [of body] by auto
  from a obtain c where "c \<in> set sig" "c \<notin> set ''0123456789abcdef''"
    by blast
  with hashChallenge_lowercase [of amt s] have "hashChallenge amt s \<noteq> sig"
    by blast
  with s show "verifyPayload amt (JStr sig) body = Inr False"
    by (simp add: verifyPayload_def)
qed

text \<open>
  The digest of the body \<^verbatim>\<open>{}\<close> verifies; an uppercase hex string and an arbitrary
  string do not.
\<close>

theorem verifyPayload_iff_witness:
  "verifyPayload ''amt-token'' (JStr (hashChallenge ''amt-token'' ''{}'')) (JObj []) = Inr True
   \<and> verifyPayload ''amt-token'' (JStr ''9F86D081884C7D65'') (JObj []) = Inr False
   \<and> verifyPayload ''amt-token'' (JStr ''not the digest'') (JObj []) = Inr False"
proof -
  have s: "JSON_stringify (JObj []) = Some ''{}''"
    by simp
  have u: "\<exists>c \<in> set ''9F86D081884C7D65''. c \<notin> set ''0123456789abcdef''"
    by simp
  have v: "\<exists>c \<in> set ''not the digest''. c \<notin> set ''0123456789abcdef''"
    by simp
  from verifyPayload_iff [of "''amt-token''" "JStr (hashChallenge ''amt-token'' ''{}'')" "JObj []"
      "''9F86D081884C7D65''"] s
  have "verifyPayload ''amt-token'' (JStr (hashChallenge ''amt-token'' ''{}'')) (JObj []) = Inr True"
    by blast
  moreover
  from verifyPayload_iff [of "''amt-token''" "JNull" "JObj []" "''9F86D081884C7D65''"] u
  have "verifyPayload ''amt-token'' (JStr ''9F86D081884C7D65'') (JObj []) = Inr False"
    by blast
  moreover
  from verifyPayload_iff [of "''amt-token''" "JNull" "JObj []" "''not the digest''"] v
  have "verifyPayload ''amt-token'' (JStr ''not the digest'') (JObj []) = Inr False"
    by blast
  ultimately show ?thesis by blast
qed

end
